theory Spec2Isabelle
  imports Complex_Main "HOL-Library.Multiset"
begin

section \<open>JavaScript values\<close>

text \<open>
  The batch pipeline passes untyped JavaScript values around. They are embedded as the
  datatype \<open>jsval\<close>. An object is the list of its own enumerable string-keyed properties
  in creation order, and its prototype is \<open>Object.prototype\<close>: the values are those of
  \<open>JSON\<close> and of the structured clone, with \<open>undefined\<close> and \<open>NaN\<close> added. Numbers
  are idealised as reals; \<open>NaN\<close> is a value of its own.
\<close>

datatype jsval =
    JUndef
  | JNull
  | JBool bool
  | JNum real
  | JNaN
  | JStr string
  | JArr "jsval list"
  | JObj "(string \<times> jsval) list"

datatype js_error = WriterNotInitialized | TypeError

text \<open>
  A method that mutates its object and may throw: \<open>Done w\<close> is a normal return that
  leaves the object as \<open>w\<close>, \<open>Raised e w\<close> is the exception \<open>e\<close>, thrown with the
  object left as \<open>w\<close> (the caller in \<open>App.jsx\<close> catches it and keeps using the object).
\<close>

datatype 'w outcome = Done 'w | Raised js_error 'w

text \<open>
  Built-ins whose result depends on the host are parameters of the model:
  \<open>Number.prototype.toString\<close>, \<open>ToNumber\<close> on strings (\<open>None\<close> is \<open>NaN\<close>),
  \<open>parseFloat\<close>, \<open>JSON.stringify(v)\<close>, \<open>JSON.stringify(v, null, 2)\<close>, and the text
  that \<open>ToString\<close> gives for the function found under a name of \<open>Object.prototype\<close>.
\<close>

record js_builtins =
  num_to_string :: "real \<Rightarrow> string"
  str_to_num :: "string \<Rightarrow> real option"
  parse_float :: "string \<Rightarrow> real"
  json_stringify :: "jsval \<Rightarrow> string"
  json_pretty :: "jsval \<Rightarrow> string"
  function_text :: "string \<Rightarrow> string"

text \<open>Truthiness, as used by \<open>!x\<close>, \<open>x && y\<close> and \<open>x || y\<close>.\<close>

fun truthy :: "jsval \<Rightarrow> bool" where
  "truthy JUndef = False"
| "truthy JNull = False"
| "truthy (JBool b) = b"
| "truthy (JNum x) = (x \<noteq> 0)"
| "truthy JNaN = False"
| "truthy (JStr s) = (s \<noteq> [])"
| "truthy (JArr xs) = True"
| "truthy (JObj ps) = True"

definition js_or :: "jsval \<Rightarrow> jsval \<Rightarrow> jsval" where
  "js_or a b = (if truthy a then a else b)"

definition nullish :: "jsval \<Rightarrow> bool" where
  "nullish v = (v = JUndef \<or> v = JNull)"

text \<open>\<open>xs.join(sep)\<close> on strings.\<close>

fun join_str :: "string \<Rightarrow> string list \<Rightarrow> string" where
  "join_str sep [] = []"
| "join_str sep [x] = x"
| "join_str sep (x # y # ys) = x @ sep @ join_str sep (y # ys)"

text \<open>
  \<open>ToString\<close>. An array prints as its elements joined by commas, \<open>null\<close> and
  \<open>undefined\<close> elements as the empty string; a plain object prints as
  \<open>[object Object]\<close>.
\<close>

fun to_string :: "js_builtins \<Rightarrow> jsval \<Rightarrow> string" where
  "to_string b JUndef = ''undefined''"
| "to_string b JNull = ''null''"
| "to_string b (JBool t) = (if t then ''true'' else ''false'')"
| "to_string b (JNum x) = num_to_string b x"
| "to_string b JNaN = ''NaN''"
| "to_string b (JStr s) = s"
| "to_string b (JArr xs) =
     join_str '','' (map (\<lambda>x. if x = JUndef \<or> x = JNull then [] else to_string b x) xs)"
| "to_string b (JObj ps) = ''[object Object]''"

text \<open>\<open>ToNumber\<close>; \<open>None\<close> is \<open>NaN\<close>.\<close>

fun to_number :: "js_builtins \<Rightarrow> jsval \<Rightarrow> real option" where
  "to_number b JUndef = None"
| "to_number b JNull = Some 0"
| "to_number b (JBool t) = Some (if t then 1 else 0)"
| "to_number b (JNum x) = Some x"
| "to_number b JNaN = None"
| "to_number b (JStr s) = str_to_num b s"
| "to_number b (JArr xs) = str_to_num b (to_string b (JArr xs))"
| "to_number b (JObj ps) = None"

text \<open>
  Both conversions of an object go through its \<open>toString\<close>. A plain object inherits
  the one of \<open>Object.prototype\<close>, unless it has an own property of that name: the
  value of such a property is not a function, and the conversion then throws a
  \<open>TypeError\<close> instead of producing a result. \<open>to_string\<close> and \<open>to_number\<close> are
  the conversions of the values that no such object occurs in.
\<close>

fun printable :: "jsval \<Rightarrow> bool" where
  "printable (JArr xs) = list_all printable xs"
| "printable (JObj ps) = (''toString'' \<notin> set (map fst ps) \<and> list_all (\<lambda>p. printable (snd p)) ps)"
| "printable v = True"

definition printable_row :: "(string \<times> jsval) list \<Rightarrow> bool" where
  "printable_row row = list_all (\<lambda>p. printable (snd p)) row"

subsection \<open>Property keys\<close>

text \<open>
  A key is an array index when it is the decimal numeral, without leading zeros, of an
  integer below \<open>2^32 - 1\<close>. \<open>Object.keys\<close> lists the array indices of an object first,
  in ascending numeric order, and then the other keys in creation order.
\<close>

definition digit_char :: "nat \<Rightarrow> char" where
  "digit_char d = char_of (48 + d)"

fun show_nat :: "nat \<Rightarrow> string" where
  "show_nat n = (if n < 10 then [digit_char n] else show_nat (n div 10) @ [digit_char (n mod 10)])"

declare show_nat.simps [simp del]

definition is_digit :: "char \<Rightarrow> bool" where
  "is_digit c = (48 \<le> (of_char c :: nat) \<and> (of_char c :: nat) \<le> 57)"

definition read_nat :: "string \<Rightarrow> nat" where
  "read_nat s = foldl (\<lambda>n c. 10 * n + (of_char c - 48)) 0 s"

definition array_index :: "string \<Rightarrow> nat option" where
  "array_index k =
     (if k \<noteq> [] \<and> list_all is_digit k \<and> show_nat (read_nat k) = k
         \<and> int (read_nat k) < 4294967295
      then Some (read_nat k) else None)"

definition index_value :: "string \<Rightarrow> nat" where
  "index_value k = (case array_index k of Some n \<Rightarrow> n | None \<Rightarrow> 0)"

definition is_array_index :: "string \<Rightarrow> bool" where
  "is_array_index k = (array_index k \<noteq> None)"

type_synonym props = "(string \<times> jsval) list"

definition lookup :: "props \<Rightarrow> string \<Rightarrow> jsval" where
  "lookup ps k = (case map_of ps k of Some v \<Rightarrow> v | None \<Rightarrow> JUndef)"

definition own_keys :: "(string \<times> 'a) list \<Rightarrow> string list" where
  "own_keys ps =
     (let ks = remdups (map fst ps)
      in sort_key index_value (filter is_array_index ks)
         @ filter (\<lambda>k. \<not> is_array_index k) ks)"

text \<open>
  The definition of the own property \<open>k\<close> with the value \<open>v\<close>, as an object literal
  and an object spread do it for every name: an existing property keeps its place, a new
  one is created last.
\<close>

fun obj_set :: "props \<Rightarrow> string \<Rightarrow> jsval \<Rightarrow> props" where
  "obj_set [] k v = [(k, v)]"
| "obj_set ((k', v') # ps) k v = (if k' = k then (k, v) # ps else (k', v') # obj_set ps k v)"

subsection \<open>Inherited properties\<close>

text \<open>
  The names that \<open>Object.prototype\<close> defines, and so the names under which every plain
  object has a value although it has no such property of its own: eleven functions, and
  the accessor \<open>__proto__\<close>, whose getter yields \<open>Object.prototype\<close> itself.
\<close>

definition object_prototype_names :: "string list" where
  "object_prototype_names =
     [''constructor'', ''hasOwnProperty'', ''isPrototypeOf'', ''propertyIsEnumerable'',
      ''toLocaleString'', ''toString'', ''valueOf'', ''__defineGetter__'', ''__defineSetter__'',
      ''__lookupGetter__'', ''__lookupSetter__'', ''__proto__'']"

text \<open>
  What the read \<open>o[k]\<close> of a plain object \<open>o\<close> finds under a name that is not known
  beforehand: the value of the own property \<open>k\<close>; or, when \<open>o\<close> has none, what
  \<open>Object.prototype\<close> holds under \<open>k\<close> (a function or \<open>Object.prototype\<close>, always
  truthy and never \<open>null\<close> or \<open>undefined\<close>); or nothing, and the read is \<open>undefined\<close>.
\<close>

datatype 'a slot = Value 'a | Inherited string | Missing

definition obj_get :: "(string \<times> 'a) list \<Rightarrow> string \<Rightarrow> 'a slot" where
  "obj_get ps k =
     (case map_of ps k of
        Some v \<Rightarrow> Value v
      | None \<Rightarrow> if k \<in> set object_prototype_names then Inherited k else Missing)"

text \<open>
  The assignment \<open>o[k] = v\<close> of a value \<open>v\<close> that is a string, a number or
  \<open>undefined\<close>. Under the name \<open>__proto__\<close> it calls the setter of
  \<open>Object.prototype\<close>, which ignores such a value and creates no property; under any
  other name it defines the own property (the other names of \<open>Object.prototype\<close> are
  writable data properties, which an assignment shadows).
\<close>

definition assign_primitive :: "props \<Rightarrow> string \<Rightarrow> jsval \<Rightarrow> props" where
  "assign_primitive obj k v = (if k = ''__proto__'' then obj else obj_set obj k v)"

text \<open>
  \<open>ToString\<close> of what is inherited: \<open>Object.prototype\<close> prints like every plain
  object, a function prints as the host prints it.
\<close>

definition inherited_text :: "js_builtins \<Rightarrow> string \<Rightarrow> string" where
  "inherited_text b k = (if k = ''__proto__'' then ''[object Object]'' else function_text b k)"

text \<open>
  \<open>v[i]\<close> and \<open>v.name\<close> on a value that is neither \<open>null\<close> nor \<open>undefined\<close> (on those
  the access throws, which the callers check first), for an index and for the names that
  the code spells out (\<open>labels\<close>, \<open>bboxes\<close>, \<open>quad_boxes\<close>, \<open>length\<close>, \<open>message\<close>),
  none of which \<open>Object.prototype\<close> defines.
\<close>

definition js_index :: "jsval \<Rightarrow> nat \<Rightarrow> jsval" where
  "js_index v i =
     (case v of
        JArr xs \<Rightarrow> if i < length xs then xs ! i else JUndef
      | JStr s \<Rightarrow> if i < length s then JStr [s ! i] else JUndef
      | JObj ps \<Rightarrow> lookup ps (show_nat i)
      | _ \<Rightarrow> JUndef)"

definition js_get :: "jsval \<Rightarrow> string \<Rightarrow> jsval" where
  "js_get v k =
     (case v of
        JObj ps \<Rightarrow> lookup ps k
      | JArr xs \<Rightarrow>
          if k = ''length'' then JNum (real (length xs))
          else (case array_index k of Some i \<Rightarrow> js_index v i | None \<Rightarrow> JUndef)
      | JStr s \<Rightarrow>
          if k = ''length'' then JNum (real (length s))
          else (case array_index k of Some i \<Rightarrow> js_index v i | None \<Rightarrow> JUndef)
      | _ \<Rightarrow> JUndef)"

text \<open>
  The own enumerable properties that an object spread \<open>{...v}\<close> copies, in the order it
  copies them.
\<close>

definition own_entries :: "jsval \<Rightarrow> props" where
  "own_entries v =
     (case v of
        JObj ps \<Rightarrow> map (\<lambda>k. (k, lookup ps k)) (own_keys ps)
      | JArr xs \<Rightarrow> map (\<lambda>i. (show_nat i, xs ! i)) [0..<length xs]
      | JStr s \<Rightarrow> map (\<lambda>i. (show_nat i, JStr [s ! i])) [0..<length s]
      | _ \<Rightarrow> [])"

text \<open>
  The number of rounds of \<open>for (let i = 0; i < v.length; i++)\<close>: the comparison converts
  the length to a number, and is false against \<open>NaN\<close>.
\<close>

definition loop_count :: "js_builtins \<Rightarrow> jsval \<Rightarrow> nat" where
  "loop_count b v = (case to_number b (js_get v ''length'') of Some x \<Rightarrow> nat \<lceil>x\<rceil> | None \<Rightarrow> 0)"

text \<open>\<open>s.replace(/\n/g, '\n  ')\<close>: every line feed is followed by two spaces.\<close>

definition indent_newlines :: "string \<Rightarrow> string" where
  "indent_newlines s = concat (map (\<lambda>c. if c = CHR ''\<newline>'' then ''\<newline>  '' else [c]) s)"

section \<open>Result items\<close>

text \<open>
  The object handed to \<open>writeResult\<close> by the message handler of \<open>App.jsx\<close>:
  \<open>{filename, result, rawResult, time, error}\<close>; a field the worker did not send is
  \<open>undefined\<close>.
\<close>

record result_item =
  it_filename :: string
  it_result :: jsval
  it_rawResult :: jsval
  it_time :: real
  it_error :: jsval

section \<open>StreamingJSONWriter\<close>

text \<open>
  \<open>jw_file\<close> is the content of the file behind \<open>fileHandle\<close>. \<open>jw_writable\<close> is
  \<open>this.writable\<close>: \<open>None\<close> is \<open>null\<close>, \<open>Some buf\<close> is an open stream that has
  received the text \<open>buf\<close>; \<open>createWritable()\<close> starts from an empty stream and
  \<open>close()\<close> commits the stream to the file. \<open>this.pendingWrites\<close> is never added to,
  so \<open>Promise.all(this.pendingWrites)\<close> does nothing and the field is left out. Failures
  of the storage medium itself are not modelled.
\<close>

record json_writer =
  jw_file :: string
  jw_writable :: "string option"
  jw_isFirst :: bool
  jw_task :: jsval

definition StreamingJSONWriter :: "string \<Rightarrow> json_writer" where
  "StreamingJSONWriter fileHandle =
     \<lparr>jw_file = fileHandle, jw_writable = None, jw_isFirst = True, jw_task = JUndef\<rparr>"

definition json_initialize :: "json_writer \<Rightarrow> string \<Rightarrow> json_writer" where
  "json_initialize w task =
     w\<lparr>jw_writable := Some ''[\<newline>'', jw_task := JStr task, jw_isFirst := True\<rparr>"

definition result_object :: "jsval \<Rightarrow> result_item \<Rightarrow> jsval" where
  "result_object task item =
     JObj ([(''filename'', JStr (it_filename item)),
            (''task'', task),
            (''result'', js_or (it_rawResult item) (it_result item)),
            (''time'', JNum (it_time item))]
           @ (if truthy (it_error item) then [(''error'', it_error item)] else []))"

definition json_writeResult ::
  "js_builtins \<Rightarrow> json_writer \<Rightarrow> result_item \<Rightarrow> json_writer outcome" where
  "json_writeResult b w item =
     (case jw_writable w of
        None \<Rightarrow> Raised WriterNotInitialized w
      | Some buf \<Rightarrow>
          let buf1 = (if \<not> jw_isFirst w then buf @ '',\<newline>'' else buf);
              resultObject = result_object (jw_task w) item
          in Done (w\<lparr>jw_writable :=
                        Some (buf1 @ ''  '' @ indent_newlines (json_pretty b resultObject)),
                      jw_isFirst := False\<rparr>))"

definition json_finalize :: "json_writer \<Rightarrow> json_writer outcome" where
  "json_finalize w =
     (case jw_writable w of
        None \<Rightarrow> Done w
      | Some buf \<Rightarrow> Done (w\<lparr>jw_file := buf @ ''\<newline>]\<newline>'', jw_writable := None\<rparr>))"

text \<open>
  What \<open>JSON.parse\<close> accepts as the empty array: \<open>[\<close> and \<open>]\<close> with nothing but JSON
  white space (space, tab, line feed, carriage return) before, between and after them.
\<close>

definition json_ws :: "char \<Rightarrow> bool" where
  "json_ws c = (c = CHR '' '' \<or> c = CHR 0x09 \<or> c = CHR ''\<newline>'' \<or> c = CHR 0x0D)"

definition parses_as_empty_array :: "string \<Rightarrow> bool" where
  "parses_as_empty_array s =
     (case dropWhile json_ws s of
        c # r \<Rightarrow> c = CHR ''['' \<and>
          (case dropWhile json_ws r of
             d # r' \<Rightarrow> d = CHR '']'' \<and> dropWhile json_ws r' = []
           | [] \<Rightarrow> False)
      | [] \<Rightarrow> False)"

section \<open>StreamingCSVWriter\<close>

text \<open>
  \<open>cw_headers\<close> is \<open>this.headers\<close> (\<open>None\<close> is \<open>null\<close>), \<open>cw_rowId\<close> is
  \<open>this.rowId\<close>; the file and the stream are as in the JSON writer.
\<close>

record csv_writer =
  cw_file :: string
  cw_writable :: "string option"
  cw_headers :: "string list option"
  cw_rowId :: nat

definition StreamingCSVWriter :: "string \<Rightarrow> csv_writer" where
  "StreamingCSVWriter fileHandle =
     \<lparr>cw_file = fileHandle, cw_writable = None, cw_headers = None, cw_rowId = 0\<rparr>"

definition csv_initialize :: "csv_writer \<Rightarrow> csv_writer" where
  "csv_initialize w = w\<lparr>cw_writable := Some [], cw_headers := None, cw_rowId := 0\<rparr>"

subsection \<open>Flattening\<close>

text \<open>
  The row of one label of a quad-box result. \<open>id\<close> is the value of \<open>this.rowId++\<close>,
  \<open>q\<close> is \<open>quad_boxes[i]\<close>.
\<close>

definition quad_row :: "nat \<Rightarrow> string \<Rightarrow> jsval \<Rightarrow> jsval \<Rightarrow> props" where
  "quad_row rid filename label q =
     [(''id'', JNum (real rid)), (''filename'', JStr filename), (''label'', label),
      (''x1'', js_index q 0), (''y1'', js_index q 1), (''x2'', js_index q 2),
      (''y2'', js_index q 3), (''x3'', js_index q 4), (''y3'', js_index q 5),
      (''x4'', js_index q 6), (''y4'', js_index q 7)]"

definition bbox_row :: "nat \<Rightarrow> string \<Rightarrow> jsval \<Rightarrow> jsval \<Rightarrow> props" where
  "bbox_row rid filename label q =
     [(''id'', JNum (real rid)), (''filename'', JStr filename), (''label'', label),
      (''xmin'', js_index q 0), (''ymin'', js_index q 1),
      (''xmax'', js_index q 2), (''ymax'', js_index q 3)]"

text \<open>
  The two \<open>for\<close> loops over the labels. The counter is incremented before the box is
  read; reading a coordinate of a box that is \<open>undefined\<close> or \<open>null\<close> throws a
  \<open>TypeError\<close>, which leaves the loop with the counter already advanced.
\<close>

fun box_loop ::
  "(nat \<Rightarrow> string \<Rightarrow> jsval \<Rightarrow> jsval \<Rightarrow> props) \<Rightarrow> string \<Rightarrow> jsval \<Rightarrow> jsval \<Rightarrow> nat list \<Rightarrow>
   nat \<Rightarrow> props list \<Rightarrow> (js_error + props list) \<times> nat" where
  "box_loop mk filename labels boxes [] rid flatItems = (Inr flatItems, rid)"
| "box_loop mk filename labels boxes (i # rest) rid flatItems =
     (if nullish (js_index boxes i) then (Inl TypeError, Suc rid)
      else box_loop mk filename labels boxes rest (Suc rid)
             (flatItems @ [mk rid filename (js_index labels i) (js_index boxes i)]))"

text \<open>\<open>{ id: this.rowId++, ...r }\<close>: the properties of \<open>r\<close> are set after \<open>id\<close>.\<close>

definition spread_row :: "nat \<Rightarrow> jsval \<Rightarrow> props" where
  "spread_row rid r = foldl (\<lambda>obj (k, v). obj_set obj k v) [(''id'', JNum (real rid))] (own_entries r)"

fun array_rows :: "jsval list \<Rightarrow> nat \<Rightarrow> props list" where
  "array_rows [] rid = []"
| "array_rows (r # rs) rid = spread_row rid r # array_rows rs (Suc rid)"

text \<open>
  The test \<open>item.result && item.result.labels && item.result.quad_boxes\<close>, and the
  same with \<open>bboxes\<close>.
\<close>

definition has_boxes :: "jsval \<Rightarrow> string \<Rightarrow> bool" where
  "has_boxes result k = (truthy result \<and> truthy (js_get result ''labels'') \<and> truthy (js_get result k))"

text \<open>
  The flattening of one item from the counter value \<open>rid\<close>: the rows, or the error
  that was thrown, and the counter afterwards.
\<close>

definition flatten :: "js_builtins \<Rightarrow> nat \<Rightarrow> result_item \<Rightarrow> (js_error + props list) \<times> nat" where
  "flatten b rid item =
     (if has_boxes (it_result item) ''quad_boxes''
      then box_loop quad_row (it_filename item) (js_get (it_result item) ''labels'')
             (js_get (it_result item) ''quad_boxes'')
             [0..<loop_count b (js_get (it_result item) ''labels'')] rid []
      else if has_boxes (it_result item) ''bboxes''
      then box_loop bbox_row (it_filename item) (js_get (it_result item) ''labels'')
             (js_get (it_result item) ''bboxes'')
             [0..<loop_count b (js_get (it_result item) ''labels'')] rid []
      else (case it_result item of
              JArr rs \<Rightarrow> (Inr (array_rows rs rid), rid + length rs)
            | JObj ps \<Rightarrow>
                (Inr [[(''id'', JNum (real rid)), (''filename'', JStr (it_filename item)),
                       (''result'', JStr (json_stringify b (it_result item)))]], Suc rid)
            | _ \<Rightarrow>
                (Inr [[(''id'', JNum (real rid)), (''filename'', JStr (it_filename item)),
                       (''result'', it_result item)]], Suc rid)))"

subsection \<open>Writing rows\<close>

text \<open>\<open>value.replace(/"/g, '""')\<close>.\<close>

definition double_quotes :: "string \<Rightarrow> string" where
  "double_quotes s = concat (map (\<lambda>c. if c = CHR 0x22 then [CHR 0x22, CHR 0x22] else [c]) s)"

text \<open>
  The callback of \<open>this.headers.map\<close>. \<open>flatItem[header]\<close> is the value of the row's
  own property; for a column that the row does not have it is \<open>undefined\<close>, which
  becomes the empty string, unless \<open>Object.prototype\<close> has the name of the column: then
  it is what is inherited, which the callback returns as it is.
\<close>

definition csv_cell :: "props \<Rightarrow> string \<Rightarrow> jsval slot" where
  "csv_cell flatItem header =
     (case obj_get flatItem header of
        Value (JStr s) \<Rightarrow>
          if CHR '','' \<in> set s \<or> CHR 0x22 \<in> set s
          then Value (JStr ([CHR 0x22] @ double_quotes s @ [CHR 0x22]))
          else Value (JStr s)
      | Value JUndef \<Rightarrow> Value (JStr [])
      | Value JNull \<Rightarrow> Value (JStr [])
      | Value v \<Rightarrow> Value v
      | Inherited k \<Rightarrow> Inherited k
      | Missing \<Rightarrow> Value (JStr []))"

text \<open>\<open>values.join(',')\<close> converts each element with \<open>ToString\<close>.\<close>

definition element_text :: "js_builtins \<Rightarrow> jsval slot \<Rightarrow> string" where
  "element_text b x =
     (case x of
        Value v \<Rightarrow> if v = JUndef \<or> v = JNull then [] else to_string b v
      | Inherited k \<Rightarrow> inherited_text b k
      | Missing \<Rightarrow> [])"

definition join_values :: "js_builtins \<Rightarrow> jsval slot list \<Rightarrow> string" where
  "join_values b vs = join_str '','' (map (element_text b) vs)"

definition csv_write :: "csv_writer \<Rightarrow> string \<Rightarrow> csv_writer" where
  "csv_write w s = w\<lparr>cw_writable := map_option (\<lambda>buf. buf @ s) (cw_writable w)\<rparr>"

text \<open>The text of one row under the headers \<open>hs\<close>.\<close>

definition row_line :: "js_builtins \<Rightarrow> string list \<Rightarrow> props \<Rightarrow> string" where
  "row_line b hs flatItem = join_values b (map (csv_cell flatItem) hs) @ ''\<newline>''"

text \<open>
  The body of the loop over \<open>flatItems\<close>. \<open>!this.headers\<close> holds only for
  \<open>null\<close>: an array, also the empty one, is truthy.
\<close>

definition write_row :: "js_builtins \<Rightarrow> props \<Rightarrow> csv_writer \<Rightarrow> csv_writer" where
  "write_row b flatItem w =
     (case cw_headers w of
        None \<Rightarrow>
          csv_write
            (csv_write (w\<lparr>cw_headers := Some (own_keys flatItem)\<rparr>)
               (join_str '','' (own_keys flatItem) @ ''\<newline>''))
            (row_line b (own_keys flatItem) flatItem)
      | Some hs \<Rightarrow> csv_write w (row_line b hs flatItem))"

definition csv_writeResult ::
  "js_builtins \<Rightarrow> csv_writer \<Rightarrow> result_item \<Rightarrow> csv_writer outcome" where
  "csv_writeResult b w item =
     (case cw_writable w of
        None \<Rightarrow> Raised WriterNotInitialized w
      | Some buf \<Rightarrow>
          (case flatten b (cw_rowId w) item of
             (Inl e, rid) \<Rightarrow> Raised e (w\<lparr>cw_rowId := rid\<rparr>)
           | (Inr flatItems, rid) \<Rightarrow> Done (fold (write_row b) flatItems (w\<lparr>cw_rowId := rid\<rparr>))))"

definition csv_finalize :: "csv_writer \<Rightarrow> csv_writer outcome" where
  "csv_finalize w =
     (case cw_writable w of
        None \<Rightarrow> Done w
      | Some buf \<Rightarrow> Done (w\<lparr>cw_file := buf, cw_writable := None\<rparr>))"

section \<open>StreamingIndividualWriter\<close>

text \<open>
  \<open>iw_dirHandle\<close> is the constructor's argument: \<open>None\<close> when it is \<open>null\<close> or
  \<open>undefined\<close>, otherwise the directory as a map from file names to contents.
\<close>

record indiv_writer =
  iw_dirHandle :: "(string \<Rightarrow> string option) option"
  iw_task :: jsval

definition StreamingIndividualWriter :: "(string \<Rightarrow> string option) option \<Rightarrow> indiv_writer" where
  "StreamingIndividualWriter dirHandle = \<lparr>iw_dirHandle = dirHandle, iw_task = JNull\<rparr>"

definition indiv_initialize :: "indiv_writer \<Rightarrow> string \<Rightarrow> indiv_writer" where
  "indiv_initialize w task = w\<lparr>iw_task := JStr task\<rparr>"

definition indiv_writeResult ::
  "js_builtins \<Rightarrow> indiv_writer \<Rightarrow> result_item \<Rightarrow> indiv_writer outcome" where
  "indiv_writeResult b w item =
     (case iw_dirHandle w of
        None \<Rightarrow> Raised WriterNotInitialized w
      | Some dir \<Rightarrow>
          Done (w\<lparr>iw_dirHandle :=
                    Some (dir(it_filename item @ ''.json'' \<mapsto>
                                json_pretty b (result_object (iw_task w) item)))\<rparr>))"

definition indiv_finalize :: "indiv_writer \<Rightarrow> indiv_writer outcome" where
  "indiv_finalize w = Done w"

section \<open>The sink as used by the application\<close>

text \<open>
  \<open>App.jsx\<close> holds one of the three writers and calls \<open>writeResult\<close> and \<open>finalize\<close>
  on it, whichever class it is.
\<close>

datatype writer = JsonWriter json_writer | CsvWriter csv_writer | IndividualWriter indiv_writer

fun map_outcome :: "('a \<Rightarrow> 'b) \<Rightarrow> 'a outcome \<Rightarrow> 'b outcome" where
  "map_outcome f (Done w) = Done (f w)"
| "map_outcome f (Raised e w) = Raised e (f w)"

fun initialize :: "writer \<Rightarrow> string \<Rightarrow> writer" where
  "initialize (JsonWriter w) task = JsonWriter (json_initialize w task)"
| "initialize (CsvWriter w) task = CsvWriter (csv_initialize w)"
| "initialize (IndividualWriter w) task = IndividualWriter (indiv_initialize w task)"

fun writeResult :: "js_builtins \<Rightarrow> writer \<Rightarrow> result_item \<Rightarrow> writer outcome" where
  "writeResult b (JsonWriter w) item = map_outcome JsonWriter (json_writeResult b w item)"
| "writeResult b (CsvWriter w) item = map_outcome CsvWriter (csv_writeResult b w item)"
| "writeResult b (IndividualWriter w) item = map_outcome IndividualWriter (indiv_writeResult b w item)"

fun finalize :: "writer \<Rightarrow> writer outcome" where
  "finalize (JsonWriter w) = map_outcome JsonWriter (json_finalize w)"
| "finalize (CsvWriter w) = map_outcome CsvWriter (csv_finalize w)"
| "finalize (IndividualWriter w) = map_outcome IndividualWriter (indiv_finalize w)"

fun raised :: "'w outcome \<Rightarrow> js_error option" where
  "raised (Done w) = None"
| "raised (Raised e w) = Some e"

fun state_of :: "'w outcome \<Rightarrow> 'w" where
  "state_of (Done w) = w"
| "state_of (Raised e w) = w"

section \<open>parseCSV\<close>

text \<open>
  A string is the list of its code units; the model covers the code units below 256.
  \<open>trim\<close> removes the white space and line terminators of JavaScript from both ends.
\<close>

definition js_space :: "char \<Rightarrow> bool" where
  "js_space c = (c = CHR 0x09 \<or> c = CHR ''\<newline>'' \<or> c = CHR 0x0B \<or> c = CHR 0x0C \<or> c = CHR 0x0D
                 \<or> c = CHR '' '' \<or> c = CHR 0xA0)"

definition trim :: "string \<Rightarrow> string" where
  "trim s = rev (dropWhile js_space (rev (dropWhile js_space s)))"

text \<open>\<open>s.split(c)\<close> for a one-character separator: never the empty list.\<close>

fun split_on :: "char \<Rightarrow> string \<Rightarrow> string list" where
  "split_on c [] = [[]]"
| "split_on c (x # xs) =
     (if x = c then [] # split_on c xs
      else (case split_on c xs of l # ls \<Rightarrow> (x # l) # ls | [] \<Rightarrow> [[x]]))"

text \<open>
  The inner loop over the characters of one line, with the loop variables \<open>current\<close>,
  \<open>inQuotes\<close> and \<open>values\<close>; the last equation is the \<open>values.push\<close> after the loop.
\<close>

fun scan_line :: "string \<Rightarrow> string \<Rightarrow> bool \<Rightarrow> string list \<Rightarrow> string list" where
  "scan_line [] current inQuotes vals = vals @ [trim current]"
| "scan_line (c # cs) current inQuotes vals =
     (if c = CHR 0x22 then scan_line cs current (\<not> inQuotes) vals
      else if c = CHR '','' \<and> \<not> inQuotes then scan_line cs [] inQuotes (vals @ [trim current])
      else scan_line cs (current @ [c]) inQuotes vals)"

definition line_values :: "string \<Rightarrow> string list" where
  "line_values line = scan_line line [] False []"

text \<open>
  The value stored for one header. A non-empty value that \<open>isNaN\<close> does not reject
  goes through \<open>parseFloat\<close>, any other value stays a string; \<open>values[index]\<close> is
  \<open>undefined\<close> beyond the end of \<open>values\<close>.
\<close>

definition parse_value :: "js_builtins \<Rightarrow> string \<Rightarrow> jsval" where
  "parse_value b v = (if v \<noteq> [] \<and> str_to_num b v \<noteq> None then JNum (parse_float b v) else JStr v)"

definition field_value :: "js_builtins \<Rightarrow> string list \<Rightarrow> nat \<Rightarrow> jsval" where
  "field_value b vals index = (if index < length vals then parse_value b (vals ! index) else JUndef)"

definition line_record :: "js_builtins \<Rightarrow> string list \<Rightarrow> string \<Rightarrow> props" where
  "line_record b headers line =
     foldl (\<lambda>obj (header, index). assign_primitive obj header (field_value b (line_values line) index))
       [] (zip headers [0..<length headers])"

definition csv_lines :: "string \<Rightarrow> string list" where
  "csv_lines csvContent = split_on CHR ''\<newline>'' (trim csvContent)"

definition csv_headers :: "string \<Rightarrow> string list" where
  "csv_headers csvContent =
     (case csv_lines csvContent of l # ls \<Rightarrow> map trim (split_on CHR '','' l) | [] \<Rightarrow> [])"

definition parseCSV :: "js_builtins \<Rightarrow> string \<Rightarrow> props list" where
  "parseCSV b csvContent =
     (case csv_lines csvContent of
        [] \<Rightarrow> []
      | l # ls \<Rightarrow> map (line_record b (map trim (split_on CHR '','' l))) ls)"

section \<open>The batch run of the worker\<close>













section \<open>The message handler of the application\<close>




section \<open>Cropping the detected regions\<close>

text \<open>
  Arithmetic that can meet \<open>NaN\<close> is done on \<open>real option\<close>, \<open>None\<close> being
  \<open>NaN\<close>: \<open>Math.min\<close> and \<open>Math.max\<close> are \<open>NaN\<close> as soon as one argument is, a
  difference likewise, and every comparison with \<open>NaN\<close> is false.
\<close>

definition num_min :: "real option \<Rightarrow> real option \<Rightarrow> real option" where
  "num_min x y = (case (x, y) of (Some a, Some c) \<Rightarrow> Some (min a c) | _ \<Rightarrow> None)"

definition num_max :: "real option \<Rightarrow> real option \<Rightarrow> real option" where
  "num_max x y = (case (x, y) of (Some a, Some c) \<Rightarrow> Some (max a c) | _ \<Rightarrow> None)"

definition num_sub :: "real option \<Rightarrow> real option \<Rightarrow> real option" where
  "num_sub x y = (case (x, y) of (Some a, Some c) \<Rightarrow> Some (a - c) | _ \<Rightarrow> None)"

definition num_le_zero :: "real option \<Rightarrow> bool" where
  "num_le_zero x = (case x of Some a \<Rightarrow> a \<le> 0 | None \<Rightarrow> False)"

text \<open>
  \<open>k in o\<close>, for the names \<open>k\<close> that the code asks for: the coordinates, none of
  which \<open>Object.prototype\<close> defines.
\<close>

definition has_key :: "props \<Rightarrow> string \<Rightarrow> bool" where
  "has_key ps k = (map_of ps k \<noteq> None)"

definition is_quad :: "props \<Rightarrow> bool" where
  "is_quad bbox =
     (has_key bbox ''x1'' \<and> has_key bbox ''y1'' \<and> has_key bbox ''x2'' \<and> has_key bbox ''y2'' \<and>
      has_key bbox ''x3'' \<and> has_key bbox ''y3'' \<and> has_key bbox ''x4'' \<and> has_key bbox ''y4'')"

definition is_axis :: "props \<Rightarrow> bool" where
  "is_axis bbox =
     (has_key bbox ''xmin'' \<and> has_key bbox ''ymin'' \<and> has_key bbox ''xmax'' \<and> has_key bbox ''ymax'')"

text \<open>
  The region that is cut out: \<open>left\<close>, \<open>top\<close>, \<open>width\<close>, \<open>height\<close>.
\<close>

type_synonym crop_rect = "real option \<times> real option \<times> real option \<times> real option"

datatype crop_error = InvalidCropDimensions | FailedToCreateBlob | WriteFailed

text \<open>
  What lies outside the function: whether \<open>canvas.toBlob\<close> yields a blob for a region,
  whether the directory and the file of a crop can be created and written, and whether a
  call of \<open>progressCallback\<close> returns (it throws otherwise, as it does when no function
  was passed).
\<close>

record crop_env =
  cr_to_blob :: "crop_rect \<Rightarrow> bool"
  cr_save :: "string \<Rightarrow> string \<Rightarrow> bool"
  cr_progress :: "nat \<Rightarrow> nat \<Rightarrow> string \<Rightarrow> bool"

text \<open>
  An image file: its name and, when it can be decoded, its width and height.
\<close>

record image_file =
  if_name :: string
  if_size :: "(nat \<times> nat) option"

text \<open>The part of \<open>cropRegion\<close> that works on an axis-aligned box.\<close>

definition crop_axis ::
  "crop_env \<Rightarrow> real option \<Rightarrow> real option \<Rightarrow> real option \<Rightarrow> real option \<Rightarrow> nat \<Rightarrow> nat \<Rightarrow>
   crop_error + crop_rect" where
  "crop_axis env xmin ymin xmax ymax imageWidth imageHeight =
     (let left = num_max (Some 0) (num_min xmin (Some (real imageWidth)));
          top = num_max (Some 0) (num_min ymin (Some (real imageHeight)));
          right = num_max (Some 0) (num_min xmax (Some (real imageWidth)));
          bottom = num_max (Some 0) (num_min ymax (Some (real imageHeight)));
          width = num_sub right left;
          height = num_sub bottom top
      in if num_le_zero width \<or> num_le_zero height then Inl InvalidCropDimensions
         else if cr_to_blob env (left, top, width, height) then Inr (left, top, width, height)
         else Inl FailedToCreateBlob)"

definition cropRegion ::
  "js_builtins \<Rightarrow> crop_env \<Rightarrow> props \<Rightarrow> nat \<Rightarrow> nat \<Rightarrow> crop_error + crop_rect" where
  "cropRegion b env bbox imageWidth imageHeight =
     (if is_quad bbox
      then (let xs = map (\<lambda>k. to_number b (lookup bbox k)) [''x1'', ''x2'', ''x3'', ''x4''];
                ys = map (\<lambda>k. to_number b (lookup bbox k)) [''y1'', ''y2'', ''y3'', ''y4'']
            in crop_axis env (foldr num_min (butlast xs) (last xs)) (foldr num_min (butlast ys) (last ys))
                 (foldr num_max (butlast xs) (last xs)) (foldr num_max (butlast ys) (last ys))
                 imageWidth imageHeight)
      else crop_axis env (to_number b (lookup bbox ''xmin'')) (to_number b (lookup bbox ''ymin''))
             (to_number b (lookup bbox ''xmax'')) (to_number b (lookup bbox ''ymax''))
             imageWidth imageHeight)"

text \<open>
  The counters and the effects of \<open>cropAndSaveImagesStreaming\<close>: the calls of the
  progress callback and the files written, as directory and file name.
\<close>

record crop_state =
  cs_saved :: nat
  cs_failed :: nat
  cs_skipped :: nat
  cs_progress :: "(nat \<times> nat \<times> string) list"
  cs_files :: "(string \<times> string) list"

text \<open>\<open>row.image || row.filename\<close>.\<close>

definition row_filename :: "props \<Rightarrow> jsval" where
  "row_filename row = js_or (lookup row ''image'') (lookup row ''filename'')"

text \<open>
  \<open>groupedData\<close>: the groups in the order in which their keys were created, each with
  its rows in the order of the input. A key is the file name as a string.
\<close>

fun group_add :: "(string \<times> props list) list \<Rightarrow> string \<Rightarrow> props \<Rightarrow> (string \<times> props list) list" where
  "group_add [] k row = [(k, [row])]"
| "group_add ((k', rows) # gs) k row =
     (if k' = k then (k', rows @ [row]) # gs else (k', rows) # group_add gs k row)"

text \<open>
  The callback of \<open>csvData.forEach\<close>: a row without a file name is left out by the
  early \<open>return\<close>. Under a file name that \<open>Object.prototype\<close> defines,
  \<open>groupedData[filename]\<close> is what is inherited: it is truthy, so no group is created,
  and it has no \<open>push\<close>, so the call throws a \<open>TypeError\<close>.
\<close>

definition group_step ::
  "js_builtins \<Rightarrow> (string \<times> props list) list \<Rightarrow> props \<Rightarrow>
   js_error + (string \<times> props list) list" where
  "group_step b groupedData row =
     (if \<not> truthy (row_filename row) then Inr groupedData
      else (case obj_get groupedData (to_string b (row_filename row)) of
              Inherited k \<Rightarrow> Inl TypeError
            | Value rows \<Rightarrow> Inr (group_add groupedData (to_string b (row_filename row)) row)
            | Missing \<Rightarrow> Inr (group_add groupedData (to_string b (row_filename row)) row)))"

text \<open>\<open>csvData.forEach\<close>: an exception in the callback ends it.\<close>

fun group_loop ::
  "js_builtins \<Rightarrow> (string \<times> props list) list \<Rightarrow> props list \<Rightarrow>
   js_error + (string \<times> props list) list" where
  "group_loop b groupedData [] = Inr groupedData"
| "group_loop b groupedData (row # rest) =
     (case group_step b groupedData row of
        Inl e \<Rightarrow> Inl e
      | Inr groupedData' \<Rightarrow> group_loop b groupedData' rest)"

definition group_rows :: "js_builtins \<Rightarrow> props list \<Rightarrow> js_error + (string \<times> props list) list" where
  "group_rows b csvData = group_loop b [] csvData"

text \<open>
  \<open>imageMap\<close>: a later file replaces an earlier one of the same name. The file names
  other than \<open>__proto__\<close> become own properties (an assignment shadows what
  \<open>Object.prototype\<close> has under the name). The assignment of a file to
  \<open>imageMap['__proto__']\<close> creates no property: it makes the file the prototype of
  \<open>imageMap\<close>, and what the later assignments and reads do then depends on the
  \<open>File\<close> interface of the host. The model does not follow the function there:
  \<open>image_map\<close> is \<open>None\<close>.
\<close>

definition image_map :: "image_file list \<Rightarrow> (string \<Rightarrow> image_file option) option" where
  "image_map imageFiles =
     (if ''__proto__'' \<in> set (map if_name imageFiles) then None
      else Some (map_of (rev (map (\<lambda>file. (if_name file, file)) imageFiles))))"

text \<open>\<open>score < 0.5\<close>, where \<open>score\<close> is \<open>bbox.score || 1.0\<close>.\<close>

definition low_score :: "js_builtins \<Rightarrow> props \<Rightarrow> bool" where
  "low_score b bbox =
     (case to_number b (js_or (lookup bbox ''score'') (JNum 1)) of
        Some x \<Rightarrow> x < 0.5
      | None \<Rightarrow> False)"

text \<open>
  The name of the crop of a row: \<open>baseFilename\<close> is the file name up to its first dot,
  the id is \<open>bbox.id\<close> unless that is \<open>undefined\<close>, and the index otherwise.
\<close>

definition base_filename :: "string \<Rightarrow> string" where
  "base_filename filename = takeWhile (\<lambda>c. c \<noteq> CHR ''.'') filename"

definition cropped_filename :: "js_builtins \<Rightarrow> string \<Rightarrow> props \<Rightarrow> nat \<Rightarrow> string" where
  "cropped_filename b filename bbox index =
     base_filename filename @ ''_''
     @ to_string b (if lookup bbox ''id'' \<noteq> JUndef then lookup bbox ''id'' else JNum (real index))
     @ ''.jpg''"

text \<open>
  One round of the loop over the rows of an image that was decoded. Under a base name that
  \<open>Object.prototype\<close> defines, \<open>imageDirHandles[baseFilename]\<close> is what is inherited,
  on which \<open>getFileHandle\<close> is not a function: no directory is created and the call
  throws into the \<open>catch\<close> of the row.
\<close>

definition crop_row ::
  "js_builtins \<Rightarrow> crop_env \<Rightarrow> string \<Rightarrow> nat \<Rightarrow> nat \<Rightarrow> props \<Rightarrow> nat \<Rightarrow> crop_state \<Rightarrow> crop_state" where
  "crop_row b env filename width height bbox index s =
     (if low_score b bbox then s\<lparr>cs_skipped := Suc (cs_skipped s)\<rparr>
      else if \<not> is_quad bbox \<and> \<not> is_axis bbox then s\<lparr>cs_skipped := Suc (cs_skipped s)\<rparr>
      else (case cropRegion b env bbox width height of
              Inl e \<Rightarrow> s\<lparr>cs_failed := Suc (cs_failed s)\<rparr>
            | Inr blob \<Rightarrow>
                if base_filename filename \<notin> set object_prototype_names
                   \<and> cr_save env (base_filename filename) (cropped_filename b filename bbox index)
                then s\<lparr>cs_saved := Suc (cs_saved s),
                       cs_files := cs_files s
                         @ [(base_filename filename, cropped_filename b filename bbox index)]\<rparr>
                else s\<lparr>cs_failed := Suc (cs_failed s)\<rparr>))"

fun crop_rows ::
  "js_builtins \<Rightarrow> crop_env \<Rightarrow> string \<Rightarrow> nat \<Rightarrow> nat \<Rightarrow> props list \<Rightarrow> nat \<Rightarrow> crop_state \<Rightarrow> crop_state" where
  "crop_rows b env filename width height [] index s = s"
| "crop_rows b env filename width height (bbox # rest) index s =
     crop_rows b env filename width height rest (Suc index)
       (crop_row b env filename width height bbox index s)"

text \<open>
  One round of the loop over the groups; \<open>n\<close> is \<open>processedImages\<close>, which is the
  number of the groups before this one. The key of a group is not a name of
  \<open>Object.prototype\<close>, so \<open>imageMap[filename]\<close> is the file stored under it or
  \<open>undefined\<close>.
\<close>

definition crop_group ::
  "js_builtins \<Rightarrow> crop_env \<Rightarrow> (string \<Rightarrow> image_file option) \<Rightarrow> nat \<Rightarrow> string \<times> props list \<Rightarrow> nat \<Rightarrow>
   crop_state \<Rightarrow> crop_state option" where
  "crop_group b env imageMap totalImages g n s =
     (case imageMap (fst g) of
        None \<Rightarrow>
          if cr_progress env (Suc n) totalImages (''Skipping '' @ fst g @ '' (not found)'')
          then Some (s\<lparr>cs_progress := cs_progress s
                          @ [(Suc n, totalImages, ''Skipping '' @ fst g @ '' (not found)'')],
                        cs_skipped := cs_skipped s + length (snd g)\<rparr>)
          else None
      | Some imageFile \<Rightarrow>
          if cr_progress env (Suc n) totalImages (''Processing '' @ fst g)
          then (let s1 = s\<lparr>cs_progress := cs_progress s @ [(Suc n, totalImages, ''Processing '' @ fst g)]\<rparr>
                in case if_size imageFile of
                     None \<Rightarrow> Some (s1\<lparr>cs_failed := cs_failed s1 + length (snd g)\<rparr>)
                   | Some (width, height) \<Rightarrow> Some (crop_rows b env (fst g) width height (snd g) 0 s1))
          else None)"

text \<open>
  The loop over the groups. The calls of \<open>progressCallback\<close> are inside no \<open>try\<close>:
  when one throws, the loop and the function end there (\<open>None\<close>).
\<close>

fun crop_groups ::
  "js_builtins \<Rightarrow> crop_env \<Rightarrow> (string \<Rightarrow> image_file option) \<Rightarrow> nat \<Rightarrow> (string \<times> props list) list \<Rightarrow>
   nat \<Rightarrow> crop_state \<Rightarrow> crop_state option" where
  "crop_groups b env imageMap totalImages [] n s = Some s"
| "crop_groups b env imageMap totalImages (g # gs) n s =
     (case crop_group b env imageMap totalImages g n s of
        None \<Rightarrow> None
      | Some s' \<Rightarrow> crop_groups b env imageMap totalImages gs (Suc n) s')"

text \<open>
  \<open>Object.entries(groupedData)\<close> lists the groups in the order of \<open>Object.keys\<close>.
\<close>

definition group_entries :: "(string \<times> props list) list \<Rightarrow> (string \<times> props list) list" where
  "group_entries groupedData =
     map (\<lambda>k. (k, case map_of groupedData k of Some rows \<Rightarrow> rows | None \<Rightarrow> [])) (own_keys groupedData)"

text \<open>
  How a call of \<open>cropAndSaveImagesStreaming\<close> ends: it returns its report, with the
  effects it had; or the grouping throws (the promise is rejected) before it had any; or
  a call of \<open>progressCallback\<close> throws and ends it without a report; or the prototype
  of \<open>imageMap\<close> was replaced, where the model stops.
\<close>

datatype crop_result = Returned crop_state | Threw js_error | Callback_threw | Prototype_replaced

definition cropAndSaveImagesStreaming ::
  "js_builtins \<Rightarrow> crop_env \<Rightarrow> props list \<Rightarrow> image_file list \<Rightarrow> crop_result" where
  "cropAndSaveImagesStreaming b env csvData imageFiles =
     (case group_rows b csvData of
        Inl e \<Rightarrow> Threw e
      | Inr groupedData \<Rightarrow>
          (case image_map imageFiles of
             None \<Rightarrow> Prototype_replaced
           | Some imageMap \<Rightarrow>
               (case crop_groups b env imageMap (length (own_keys groupedData))
                       (group_entries groupedData) 0
                       \<lparr>cs_saved = 0, cs_failed = 0, cs_skipped = 0, cs_progress = [],
                        cs_files = []\<rparr> of
                  None \<Rightarrow> Callback_threw
                | Some s \<Rightarrow> Returned s)))"

text \<open>The object \<open>{ saved, failed, skipped }\<close> that is returned.\<close>

definition report :: "crop_result \<Rightarrow> (nat \<times> nat \<times> nat) option" where
  "report r =
     (case r of
        Returned s \<Rightarrow> Some (cs_saved s, cs_failed s, cs_skipped s)
      | Threw e \<Rightarrow> None
      | Callback_threw \<Rightarrow> None
      | Prototype_replaced \<Rightarrow> None)"


text \<open>
  For the proofs: the step of the grouping where it does not throw, and the rows whose
  file name \<open>Object.prototype\<close> does not define.
\<close>

definition add_row ::
  "js_builtins \<Rightarrow> (string \<times> props list) list \<Rightarrow> props \<Rightarrow> (string \<times> props list) list" where
  "add_row b groupedData row =
     (if \<not> truthy (row_filename row) then groupedData
      else group_add groupedData (to_string b (row_filename row)) row)"

definition plain_name :: "js_builtins \<Rightarrow> props \<Rightarrow> bool" where
  "plain_name b row =
     (if truthy (row_filename row)
      then to_string b (row_filename row) \<notin> set object_prototype_names else True)"


section \<open>The round trip through the CSV writer\<close>

text \<open>
  The text that a freshly initialised CSV writer holds after the loop over \<open>flatItems\<close>
  has written the given rows.
\<close>

definition serialize_rows :: "js_builtins \<Rightarrow> props list \<Rightarrow> string" where
  "serialize_rows b rows =
     (case cw_writable (fold (write_row b) rows (csv_initialize (StreamingCSVWriter []))) of
        Some text \<Rightarrow> text
      | None \<Rightarrow> [])"

text \<open>Two records have the same fields with the same values.\<close>

definition same_fields :: "props \<Rightarrow> props \<Rightarrow> bool" where
  "same_fields r r' =
     (set (map fst r) = set (map fst r') \<and> list_all (\<lambda>k. lookup r k = lookup r' k) (map fst r))"

text \<open>
  The conditions under which the round trip is shown, on the text as \<open>parseCSV\<close> reads
  it. The names of the columns are the parts of the first line between its commas, a
  comma inside quotes included, with the quotes left in the names (\<open>csv_headers\<close>): the
  header line \<open>"a,b",c\<close> has the three names \<open>"a\<close>, \<open>b"\<close> and \<open>c\<close>. These names
  are distinct, none of them is \<open>__proto__\<close>, and every line after the header has at
  least as many values as there are names.
\<close>

definition regular_csv :: "string \<Rightarrow> bool" where
  "regular_csv text =
     (distinct (csv_headers text) \<and> ''__proto__'' \<notin> set (csv_headers text) \<and>
      list_all (\<lambda>line. length (csv_headers text) \<le> length (line_values line)) (tl (csv_lines text)))"







section \<open>A host for the examples\<close>

text \<open>
  Concrete built-ins, used where an example has to be evaluated. They agree with
  JavaScript on what the examples use: plain decimal numerals with an optional sign and
  fraction for \<open>ToNumber\<close> and \<open>parseFloat\<close> (the empty string converts to \<open>0\<close>), the
  shortest decimal expansion for printing a number, and the text that V8 prints for a
  native function.
\<close>

fun frac_digits :: "nat \<Rightarrow> real \<Rightarrow> string" where
  "frac_digits 0 f = []"
| "frac_digits (Suc n) f =
     (if f = 0 then []
      else digit_char (nat \<lfloor>10 * f\<rfloor>) # frac_digits n (10 * f - real_of_int \<lfloor>10 * f\<rfloor>))"

definition show_num :: "real \<Rightarrow> string" where
  "show_num x =
     (let a = \<bar>x\<bar>; f = a - real_of_int \<lfloor>a\<rfloor>
      in (if x < 0 then ''-'' else []) @ show_nat (nat \<lfloor>a\<rfloor>)
         @ (if f = 0 then [] else CHR ''.'' # frac_digits 20 f))"

definition read_frac :: "string \<Rightarrow> real" where
  "read_frac s = foldr (\<lambda>c x. (real (of_char c - 48) + x) / 10) s 0"

definition read_unsigned :: "string \<Rightarrow> real option" where
  "read_unsigned s =
     (case split_on CHR ''.'' s of
        [i] \<Rightarrow> if i \<noteq> [] \<and> list_all is_digit i then Some (real (read_nat i)) else None
      | [i, f] \<Rightarrow>
          if \<not> (i = [] \<and> f = []) \<and> list_all is_digit i \<and> list_all is_digit f
          then Some (real (read_nat i) + read_frac f) else None
      | _ \<Rightarrow> None)"

definition read_decimal :: "string \<Rightarrow> real option" where
  "read_decimal s =
     (case s of
        [] \<Rightarrow> Some 0
      | c # cs \<Rightarrow>
          if c = CHR ''-'' then map_option uminus (read_unsigned cs)
          else if c = CHR ''+'' then read_unsigned cs
          else read_unsigned s)"

fun json_quote_char :: "char \<Rightarrow> string" where
  "json_quote_char c =
     (if c = CHR 0x22 then [CHR 0x5C, CHR 0x22]
      else if c = CHR 0x5C then [CHR 0x5C, CHR 0x5C]
      else if c = CHR ''\<newline>'' then [CHR 0x5C, CHR ''n'']
      else [c])"

definition json_quote :: "string \<Rightarrow> string" where
  "json_quote s = [CHR 0x22] @ concat (map json_quote_char s) @ [CHR 0x22]"

fun json_text :: "nat option \<Rightarrow> nat \<Rightarrow> jsval \<Rightarrow> string" where
  "json_text ind n JUndef = ''null''"
| "json_text ind n JNull = ''null''"
| "json_text ind n (JBool t) = (if t then ''true'' else ''false'')"
| "json_text ind n (JNum x) = show_num x"
| "json_text ind n JNaN = ''null''"
| "json_text ind n (JStr s) = json_quote s"
| "json_text ind n (JArr xs) =
     (case ind of
        None \<Rightarrow> ''['' @ join_str '','' (map (json_text ind n) xs) @ '']''
      | Some k \<Rightarrow>
          if xs = [] then ''[]''
          else ''[\<newline>''
               @ join_str '',\<newline>'' (map (\<lambda>x. replicate (n + k) CHR '' '' @ json_text ind (n + k) x) xs)
               @ ''\<newline>'' @ replicate n CHR '' '' @ '']'')"
| "json_text ind n (JObj ps) =
     (case ind of
        None \<Rightarrow>
          ''{'' @ join_str '',''
                   (map (\<lambda>p. json_quote (fst p) @ '':'' @ json_text ind n (snd p))
                      (filter (\<lambda>p. snd p \<noteq> JUndef) ps)) @ ''}''
      | Some k \<Rightarrow>
          if filter (\<lambda>p. snd p \<noteq> JUndef) ps = [] then ''{}''
          else ''{\<newline>''
               @ join_str '',\<newline>''
                   (map (\<lambda>p. replicate (n + k) CHR '' '' @ json_quote (fst p) @ '': ''
                               @ json_text ind (n + k) (snd p))
                      (filter (\<lambda>p. snd p \<noteq> JUndef) ps))
               @ ''\<newline>'' @ replicate n CHR '' '' @ ''}'')"

definition example_host :: js_builtins where
  "example_host =
     \<lparr>num_to_string = show_num,
      str_to_num = (\<lambda>s. read_decimal (trim s)),
      parse_float = (\<lambda>s. case read_decimal (trim s) of Some x \<Rightarrow> x | None \<Rightarrow> 0),
      json_stringify = json_text None 0,
      json_pretty = json_text (Some 2) 0,
      function_text = (\<lambda>k. ''function '' @ (if k = ''constructor'' then ''Object'' else k)
                              @ ''() { [native code] }'')\<rparr>"

section \<open>Verified properties\<close>

subsection \<open>The lifecycle of the sinks\<close>

text \<open>
  C9. For the aggregate JSON sink, \<open>initialize\<close> writes the literal prefix \<open>[\n\<close>,
  \<open>finalize\<close> writes \<open>\n]\n\<close> after whatever the stream holds, and a run with no
  \<open>writeResult\<close> between the two leaves exactly the text \<open>[\n\n]\n\<close> in the file,
  which parses as the empty JSON array.
\<close>

theorem json_empty_batch_text:
  "jw_writable (json_initialize w task) = Some ''[\<newline>''
   \<and> jw_file (state_of (json_finalize (w\<lparr>jw_writable := Some buf\<rparr>))) = buf @ ''\<newline>]\<newline>''
   \<and> raised (json_finalize (json_initialize w task)) = None
   \<and> jw_file (state_of (json_finalize (json_initialize w task))) = ''[\<newline>\<newline>]\<newline>''
   \<and> parses_as_empty_array (jw_file (state_of (json_finalize (json_initialize w task))))"
  by (simp add: json_initialize_def json_finalize_def parses_as_empty_array_def json_ws_def)

text \<open>
  C10. For the JSON and the CSV sink, \<open>finalize\<close> leaves \<open>this.writable\<close> at
  \<open>null\<close>, and a second \<open>finalize\<close> returns without raising and changes nothing:
  neither the stream nor the file, so the closing \<open>\n]\n\<close> of the JSON file is not
  appended again.
\<close>

theorem finalize_idempotent:
  "jw_writable (state_of (json_finalize jw)) = None
   \<and> json_finalize (state_of (json_finalize jw)) = Done (state_of (json_finalize jw))
   \<and> cw_writable (state_of (csv_finalize cw)) = None
   \<and> csv_finalize (state_of (csv_finalize cw)) = Done (state_of (csv_finalize cw))"
  by (simp add: json_finalize_def csv_finalize_def split: option.split)

text \<open>
  C8, as the code has it. For the JSON and the CSV sink, \<open>writeResult\<close> before
  \<open>initialize\<close> and \<open>writeResult\<close> after \<open>finalize\<close> raise
  \<open>Writer not initialized\<close>, while \<open>finalize\<close> before \<open>initialize\<close> returns without
  raising and changes nothing. The per-item-file sink raises that error from
  \<open>writeResult\<close> only when it was constructed without a directory handle (with one,
  \<open>writeResult\<close> succeeds before \<open>initialize\<close> and after \<open>finalize\<close>), and its
  \<open>finalize\<close> never raises.
\<close>

theorem writer_not_initialized_cases:
  "raised (writeResult b (JsonWriter (StreamingJSONWriter f)) item) = Some WriterNotInitialized
   \<and> raised (writeResult b (CsvWriter (StreamingCSVWriter f)) item) = Some WriterNotInitialized
   \<and> raised (writeResult b (state_of (finalize (JsonWriter jw))) item) = Some WriterNotInitialized
   \<and> raised (writeResult b (state_of (finalize (CsvWriter cw))) item) = Some WriterNotInitialized
   \<and> finalize (JsonWriter (StreamingJSONWriter f)) = Done (JsonWriter (StreamingJSONWriter f))
   \<and> finalize (CsvWriter (StreamingCSVWriter f)) = Done (CsvWriter (StreamingCSVWriter f))
   \<and> raised (writeResult b (IndividualWriter (StreamingIndividualWriter (Some d))) item) = None
   \<and> raised (writeResult b
        (state_of (finalize (IndividualWriter (StreamingIndividualWriter (Some d))))) item) = None
   \<and> raised (writeResult b (IndividualWriter (StreamingIndividualWriter None)) item)
       = Some WriterNotInitialized
   \<and> finalize (IndividualWriter iw) = Done (IndividualWriter iw)"
  by (simp add: json_finalize_def csv_finalize_def indiv_finalize_def json_writeResult_def
      csv_writeResult_def indiv_writeResult_def StreamingJSONWriter_def StreamingCSVWriter_def
      StreamingIndividualWriter_def split: option.split)

text \<open>
  C8, as the specification words it, fails: \<open>finalize\<close> on a JSON writer that was never
  initialised does not raise.
\<close>

theorem finalize_before_initialize_silent:
  "raised (finalize (JsonWriter (StreamingJSONWriter []))) \<noteq> Some WriterNotInitialized"
  by (simp add: json_finalize_def StreamingJSONWriter_def)

subsection \<open>The flattened CSV sink: headers\<close>

lemma fold_write_row_locked:
  "cw_headers w = Some hs \<Longrightarrow>
   fold (write_row b) rs w = csv_write w (concat (map (row_line b hs) rs))"
proof (induction rs arbitrary: w)
  case Nil
  then show ?case by (cases "cw_writable w") (simp_all add: csv_write_def)
next
  case (Cons r rs)
  have h: "cw_headers (write_row b r w) = Some hs"
    using Cons.prems by (simp add: write_row_def csv_write_def)
  show ?case
    using Cons.prems Cons.IH[OF h]
    by (cases "cw_writable w") (simp_all add: write_row_def csv_write_def)
qed

lemma first_row_fixes_headers:
  "fold (write_row b) (r # rs) (w\<lparr>cw_headers := None, cw_writable := Some buf\<rparr>)
   = w\<lparr>cw_headers := Some (own_keys r),
       cw_writable := Some (buf @ join_str '','' (own_keys r) @ ''\<newline>''
                            @ concat (map (row_line b (own_keys r)) (r # rs)))\<rparr>"
  by (simp add: write_row_def csv_write_def fold_write_row_locked[where hs="own_keys r"])

lemma later_items_keep_headers:
  "csv_writeResult b (w\<lparr>cw_headers := Some hs, cw_writable := Some buf\<rparr>) item
   = (case flatten b (cw_rowId w) item of
        (Inl e, rid) \<Rightarrow>
          Raised e (w\<lparr>cw_headers := Some hs, cw_writable := Some buf, cw_rowId := rid\<rparr>)
      | (Inr flatItems, rid) \<Rightarrow>
          Done (w\<lparr>cw_headers := Some hs,
                  cw_writable := Some (buf @ concat (map (row_line b hs) flatItems)),
                  cw_rowId := rid\<rparr>))"
  by (simp add: csv_writeResult_def csv_write_def fold_write_row_locked[where hs=hs]
      split: prod.split sum.split)

lemma map_of_filter_keys:
  "k \<in> set hs \<Longrightarrow> map_of (filter (\<lambda>p. fst p \<in> set hs) r) k = map_of r k"
  by (induction r) auto

lemma obj_get_filter: "k \<in> set hs \<Longrightarrow> obj_get (filter (\<lambda>p. fst p \<in> set hs) r) k = obj_get r k"
  by (simp add: obj_get_def map_of_filter_keys)

lemma extra_fields_dropped: "row_line b hs r = row_line b hs (filter (\<lambda>p. fst p \<in> set hs) r)"
  by (simp add: row_line_def csv_cell_def obj_get_filter cong: map_cong)

lemma map_of_without: "map_of (filter (\<lambda>p. fst p \<noteq> h) r) h = None"
  by (induction r) auto

lemma missing_field_cell:
  "csv_cell (filter (\<lambda>p. fst p \<noteq> h) r) h
   = (if h \<in> set object_prototype_names then Inherited h else Value (JStr []))"
  by (simp add: csv_cell_def obj_get_def map_of_without)

lemma missing_field_text:
  "element_text b (csv_cell (filter (\<lambda>p. fst p \<noteq> h) r) h)
   = (if h \<in> set object_prototype_names then inherited_text b h else [])"
  by (simp add: missing_field_cell element_text_def)

lemma own_keys_quad_row:
  "own_keys (quad_row rid f l q)
   = [''id'', ''filename'', ''label'', ''x1'', ''y1'', ''x2'', ''y2'', ''x3'', ''y3'', ''x4'', ''y4'']"
  by (simp add: own_keys_def quad_row_def is_array_index_def array_index_def is_digit_def)

lemma own_keys_bbox_row:
  "own_keys (bbox_row rid f l q)
   = [''id'', ''filename'', ''label'', ''xmin'', ''ymin'', ''xmax'', ''ymax'']"
  by (simp add: own_keys_def bbox_row_def is_array_index_def array_index_def is_digit_def)

text \<open>
  Where no key of a row is an array index, \<open>Object.keys\<close> lists the keys in creation
  order.
\<close>

lemma own_keys_plain:
  "distinct (map fst r) \<Longrightarrow> list_all (\<lambda>k. \<not> is_array_index k) (map fst r) \<Longrightarrow>
   own_keys r = map fst r"
  by (simp add: own_keys_def Let_def list_all_iff filter_id_conv)

text \<open>
  C4, as the code has it, for rows and results whose values are printable (the
  conversion of any other value to a string throws in the middle of \<open>writeResult\<close>).
  The first row written after \<open>initialize\<close> fixes the headers
  to \<open>Object.keys\<close> of that row, which lists the keys that are array indices first, in
  ascending order, and the other keys in creation order (for the rows of the quad-box and
  the axis-box shape: \<open>id\<close>, \<open>filename\<close>, \<open>label\<close> and the coordinates). The header line
  and every row, the first one and all later ones of whatever shape, are written against
  these headers; a later \<open>writeResult\<close> leaves the headers as they are, whether it returns
  or throws. The fields of a row that are not among the headers do not reach the file. A
  field the row does not have is written as the empty string, unless the header is a name
  that \<open>Object.prototype\<close> defines (\<open>constructor\<close>, \<open>toString\<close>, \<open>__proto__\<close> and the
  like): then the row inherits a value under that name, and the text of that value is
  written.
\<close>

theorem csv_header_locked:
  assumes "list_all printable_row (r # rs)" and "printable (it_result item)"
  shows "fold (write_row b) (r # rs) (w\<lparr>cw_headers := None, cw_writable := Some buf\<rparr>)
     = w\<lparr>cw_headers := Some (own_keys r),
         cw_writable := Some (buf @ join_str '','' (own_keys r) @ ''\<newline>''
                              @ concat (map (row_line b (own_keys r)) (r # rs)))\<rparr>
   \<and> csv_writeResult b (w\<lparr>cw_headers := Some hs, cw_writable := Some buf\<rparr>) item
     = (case flatten b (cw_rowId w) item of
          (Inl e, rid) \<Rightarrow>
            Raised e (w\<lparr>cw_headers := Some hs, cw_writable := Some buf, cw_rowId := rid\<rparr>)
        | (Inr flatItems, rid) \<Rightarrow>
            Done (w\<lparr>cw_headers := Some hs,
                    cw_writable := Some (buf @ concat (map (row_line b hs) flatItems)),
                    cw_rowId := rid\<rparr>))
   \<and> row_line b hs r = row_line b hs (filter (\<lambda>p. fst p \<in> set hs) r)
   \<and> csv_cell (filter (\<lambda>p. fst p \<noteq> h) r) h
     = (if h \<in> set object_prototype_names then Inherited h else Value (JStr []))
   \<and> element_text b (csv_cell (filter (\<lambda>p. fst p \<noteq> h) r) h)
     = (if h \<in> set object_prototype_names then inherited_text b h else [])
   \<and> own_keys (quad_row rid f l q)
     = [''id'', ''filename'', ''label'', ''x1'', ''y1'', ''x2'', ''y2'', ''x3'', ''y3'', ''x4'', ''y4'']
   \<and> own_keys (bbox_row rid f l q)
     = [''id'', ''filename'', ''label'', ''xmin'', ''ymin'', ''xmax'', ''ymax'']"
  by (intro conjI first_row_fixes_headers later_items_keep_headers extra_fields_dropped
      missing_field_cell missing_field_text own_keys_quad_row own_keys_bbox_row)

text \<open>
  Two rows of different shapes after \<open>initialize\<close>: the headers are those of the first.
\<close>

theorem csv_header_locked_witness:
  "list_all printable_row
     [[(''id'', JNum 0), (''label'', JStr ''cat'')], [(''id'', JNum 1), (''result'', JStr ''x'')]]
   \<and> printable (it_result \<lparr>it_filename = ''a.jpg'', it_result = JStr ''a cat'',
                              it_rawResult = JUndef, it_time = 1, it_error = JUndef\<rparr>)
   \<and> fold (write_row example_host)
       [[(''id'', JNum 0), (''label'', JStr ''cat'')], [(''id'', JNum 1), (''result'', JStr ''x'')]]
       (csv_initialize (StreamingCSVWriter [])\<lparr>cw_headers := None, cw_writable := Some []\<rparr>)
     = csv_initialize (StreamingCSVWriter [])
         \<lparr>cw_headers := Some (own_keys [(''id'', JNum 0), (''label'', JStr ''cat'')]),
          cw_writable := Some ([] @ join_str '','' (own_keys [(''id'', JNum 0), (''label'', JStr ''cat'')])
            @ ''\<newline>''
            @ concat (map (row_line example_host (own_keys [(''id'', JNum 0), (''label'', JStr ''cat'')]))
                [[(''id'', JNum 0), (''label'', JStr ''cat'')],
                 [(''id'', JNum 1), (''result'', JStr ''x'')]]))\<rparr>
   \<and> cw_writable (fold (write_row example_host)
       [[(''id'', JNum 0), (''label'', JStr ''cat'')], [(''id'', JNum 1), (''result'', JStr ''x'')]]
       (csv_initialize (StreamingCSVWriter [])\<lparr>cw_headers := None, cw_writable := Some []\<rparr>))
     = Some ''id,label\<newline>0,cat\<newline>1,\<newline>''"
proof -
  let ?r = "[(''id'', JNum 0), (''label'', JStr ''cat'')]"
  let ?r' = "[(''id'', JNum 1), (''result'', JStr ''x'')]"
  let ?item = "\<lparr>it_filename = ''a.jpg'', it_result = JStr ''a cat'',
                it_rawResult = JUndef, it_time = 1, it_error = JUndef\<rparr>"
  have h1: "list_all printable_row [?r, ?r']" by code_simp
  have h2: "printable (it_result ?item)" by simp
  have t: "cw_writable (fold (write_row example_host) [?r, ?r']
       (csv_initialize (StreamingCSVWriter [])\<lparr>cw_headers := None, cw_writable := Some []\<rparr>))
     = Some ''id,label\<newline>0,cat\<newline>1,\<newline>''"
    by code_simp
  from csv_header_locked[OF h1 h2, where b=example_host
      and w="csv_initialize (StreamingCSVWriter [])" and buf="[]"]
  have "fold (write_row example_host) [?r, ?r']
       (csv_initialize (StreamingCSVWriter [])\<lparr>cw_headers := None, cw_writable := Some []\<rparr>)
     = csv_initialize (StreamingCSVWriter [])
         \<lparr>cw_headers := Some (own_keys ?r),
          cw_writable := Some ([] @ join_str '','' (own_keys ?r) @ ''\<newline>''
            @ concat (map (row_line example_host (own_keys ?r)) [?r, ?r']))\<rparr>"
    by (rule conjunct1)
  with h1 h2 t show ?thesis by (intro conjI)
qed

text \<open>
  C4, as the specification words it, fails on the order of the headers: the element
  \<open>{"0": "x"}\<close> of an array-shaped result gives the row \<open>{id: 0, "0": "x"}\<close>, whose keys
  were created in the order \<open>id\<close>, \<open>0\<close>, and the headers are \<open>0\<close>, \<open>id\<close>.
\<close>

theorem csv_header_order_counterexample:
  "cw_headers (state_of (csv_writeResult example_host (csv_initialize (StreamingCSVWriter []))
       \<lparr>it_filename = ''a.jpg'', it_result = JArr [JObj [(''0'', JStr ''x'')]],
        it_rawResult = JUndef, it_time = 1, it_error = JUndef\<rparr>))
     = Some [''0'', ''id'']
   \<and> spread_row 0 (JObj [(''0'', JStr ''x'')]) = [(''id'', JNum 0), (''0'', JStr ''x'')]"
  by code_simp

text \<open>
  The example of the specification: an axis-box result followed by a caption. The second
  row is written under the headers of the first, and no \<open>result\<close> column appears.
\<close>

lemma csv_header_example:
  "cw_file (state_of (csv_finalize (state_of (csv_writeResult example_host
      (state_of (csv_writeResult example_host (csv_initialize (StreamingCSVWriter []))
         \<lparr>it_filename = ''a.jpg'',
          it_result = JObj [(''labels'', JArr [JStr ''cat'']),
                            (''bboxes'', JArr [JArr [JNum 1, JNum 2, JNum 3, JNum 4]])],
          it_rawResult = JUndef, it_time = 1, it_error = JUndef\<rparr>))
      \<lparr>it_filename = ''b.jpg'', it_result = JStr ''some caption'',
       it_rawResult = JUndef, it_time = 1, it_error = JUndef\<rparr>))))
   = ''id,filename,label,xmin,ymin,xmax,ymax\<newline>0,a.jpg,cat,1,2,3,4\<newline>1,b.jpg,,,,,\<newline>''"
  by code_simp

text \<open>
  A column that \<open>Object.prototype\<close> names: the first element has a property
  \<open>constructor\<close>, the second has none and inherits the function \<open>Object\<close>, whose text
  is written.
\<close>

lemma csv_inherited_column_example:
  "cw_file (state_of (csv_finalize (state_of (csv_writeResult example_host
      (csv_initialize (StreamingCSVWriter []))
      \<lparr>it_filename = ''a.jpg'',
       it_result = JArr [JObj [(''constructor'', JStr ''x'')], JObj [(''label'', JStr ''y'')]],
       it_rawResult = JUndef, it_time = 1, it_error = JUndef\<rparr>))))
   = ''id,constructor\<newline>0,x\<newline>1,function Object() { [native code] }\<newline>''"
  by code_simp

subsection \<open>The flattened CSV sink: row ids\<close>

lemma box_loop_ids:
  assumes "\<And>rid l q. lookup (mk rid fn l q) ''id'' = JNum (real rid)"
  shows "box_loop mk fn ls bs idxs rid acc = (Inr rows, rid') \<Longrightarrow>
     map (\<lambda>r. lookup r ''id'') rows
       = map (\<lambda>r. lookup r ''id'') acc @ map (\<lambda>j. JNum (real j)) [rid..<rid + length idxs]
     \<and> rid' = rid + length idxs"
proof (induction idxs arbitrary: rid acc)
  case Nil
  then show ?case by simp
next
  case (Cons i idxs)
  from Cons.prems have nn: "\<not> nullish (js_index bs i)" by (auto split: if_splits)
  with Cons.prems have
    "box_loop mk fn ls bs idxs (Suc rid) (acc @ [mk rid fn (js_index ls i) (js_index bs i)])
     = (Inr rows, rid')"
    by simp
  note ih = Cons.IH[OF this]
  have u: "[rid..<rid + length (i # idxs)] = rid # [Suc rid..<Suc rid + length idxs]"
    by (subst upt_rec) simp
  show ?case unfolding u using ih by (simp add: assms)
qed

lemma box_loop_length:
  "box_loop mk fn ls bs idxs rid acc = (Inr rows, rid') \<Longrightarrow> length rows = length acc + length idxs"
  by (induction idxs arbitrary: rid acc) (auto split: if_splits)

lemma box_loop_counter:
  "box_loop mk fn ls bs idxs rid acc = (Inr rows, rid') \<Longrightarrow> rid' + length acc = rid + length rows"
proof (induction idxs arbitrary: rid acc)
  case Nil
  then show ?case by simp
next
  case (Cons i idxs)
  from Cons.prems have nn: "\<not> nullish (js_index bs i)" by (auto split: if_splits)
  with Cons.prems have
    "box_loop mk fn ls bs idxs (Suc rid) (acc @ [mk rid fn (js_index ls i) (js_index bs i)])
     = (Inr rows, rid')"
    by simp
  from Cons.IH[OF this] show ?case by simp
qed

lemma array_rows_length: "length (array_rows rs rid) = length rs"
  by (induction rs arbitrary: rid) auto

text \<open>The counter advances by one for every row that is flattened.\<close>

lemma flatten_counter:
  assumes "flatten b rid item = (Inr rows, rid')"
  shows "rid' = rid + length rows"
proof (cases "has_boxes (it_result item) ''quad_boxes''")
  case True
  with assms show ?thesis by (auto simp: flatten_def dest: box_loop_counter)
next
  case nq: False
  show ?thesis
  proof (cases "has_boxes (it_result item) ''bboxes''")
    case True
    with nq assms show ?thesis by (auto simp: flatten_def dest: box_loop_counter)
  next
    case False
    with nq assms show ?thesis
      by (cases "it_result item") (auto simp: flatten_def array_rows_length)
  qed
qed

lemma lookup_quad_id: "lookup (quad_row rid fn l q) ''id'' = JNum (real rid)"
  by (simp add: quad_row_def lookup_def)

lemma lookup_bbox_id: "lookup (bbox_row rid fn l q) ''id'' = JNum (real rid)"
  by (simp add: bbox_row_def lookup_def)

text \<open>
  For every result that is not an array, the ids of the rows are the successive values
  of the counter.
\<close>

lemma flatten_ids:
  assumes "flatten b rid item = (Inr rows, rid')" "\<And>rs. it_result item \<noteq> JArr rs"
  shows "map (\<lambda>r. lookup r ''id'') rows = map (\<lambda>j. JNum (real j)) [rid..<rid + length rows]"
proof (cases "has_boxes (it_result item) ''quad_boxes''")
  case True
  with assms(1) have l:
    "box_loop quad_row (it_filename item) (js_get (it_result item) ''labels'')
       (js_get (it_result item) ''quad_boxes'')
       [0..<loop_count b (js_get (it_result item) ''labels'')] rid [] = (Inr rows, rid')"
    by (simp add: flatten_def)
  from box_loop_ids[OF lookup_quad_id l] box_loop_length[OF l] show ?thesis by simp
next
  case nq: False
  show ?thesis
  proof (cases "has_boxes (it_result item) ''bboxes''")
    case True
    with nq assms(1) have l:
      "box_loop bbox_row (it_filename item) (js_get (it_result item) ''labels'')
         (js_get (it_result item) ''bboxes'')
         [0..<loop_count b (js_get (it_result item) ''labels'')] rid [] = (Inr rows, rid')"
      by (simp add: flatten_def)
    from box_loop_ids[OF lookup_bbox_id l] box_loop_length[OF l] show ?thesis by simp
  next
    case False
    with nq assms show ?thesis
      by (cases "it_result item") (auto simp: flatten_def lookup_def)
  qed
qed

lemma obj_set_lookup: "lookup (obj_set ps k v) k' = (if k' = k then v else lookup ps k')"
  by (induction ps) (auto simp: lookup_def)

lemma foldl_obj_set_keep:
  "k \<notin> fst ` set es \<Longrightarrow> lookup (foldl (\<lambda>obj (k, v). obj_set obj k v) ps es) k = lookup ps k"
  by (induction es arbitrary: ps) (auto simp: obj_set_lookup)

text \<open>
  The row of an array element has the counter as its id when the element has no
  property \<open>id\<close> of its own.
\<close>

lemma spread_row_id:
  "''id'' \<notin> fst ` set (own_entries r) \<Longrightarrow> lookup (spread_row rid r) ''id'' = JNum (real rid)"
  by (simp add: spread_row_def foldl_obj_set_keep) (simp add: lookup_def)

text \<open>
  C5 at the input on which the code departs from it: a writer whose counter is \<open>0\<close>
  receives the array-shaped result \<open>[{id: 7, label: "cat"}]\<close>. The spread
  \<open>{ id: this.rowId++, ...r }\<close> lets the element's own \<open>id\<close> replace the counter, and
  the row is written with the id \<open>7\<close>, while the counter moves on to \<open>1\<close>.
\<close>

theorem array_element_id_replaces_counter:
  "csv_writeResult example_host (csv_initialize (StreamingCSVWriter []))
     \<lparr>it_filename = ''a.jpg'',
      it_result = JArr [JObj [(''id'', JNum 7), (''label'', JStr ''cat'')]],
      it_rawResult = JUndef, it_time = 1, it_error = JUndef\<rparr>
   = Done \<lparr>cw_file = [], cw_writable = Some ''id,label\<newline>7,cat\<newline>'',
            cw_headers = Some [''id'', ''label''], cw_rowId = 1\<rparr>"
  by code_simp

subsection \<open>parseCSV: quoting\<close>




text \<open>A comma inside a quoted field stays in the value.\<close>

lemma quoted_comma_example:
  "parseCSV example_host ''label,n\<newline>\"a,b\",1'' = [[(''label'', JStr ''a,b''), (''n'', JNum 1)]]"
  by code_simp

text \<open>
  C2 at the input on which the code departs from it: the field \<open>"say ""hi"""\<close>, which the
  CSV writer produces for the value \<open>say "hi"\<close>, is parsed as \<open>say hi\<close>. Every double
  quote only toggles \<open>inQuotes\<close>; none reaches the value.
\<close>

theorem doubled_quote_is_dropped:
  "parseCSV example_host ''label\<newline>\"say \"\"hi\"\"\"'' = [[(''label'', JStr ''say hi'')]]"
  by code_simp

subsection \<open>The batch run\<close>












subsection \<open>Cropping: the confidence gate\<close>

lemma low_score_number:
  "lookup bbox ''score'' = JNum x \<Longrightarrow> low_score b bbox = (x \<noteq> 0 \<and> x < 1 / 2)"
  by (simp add: low_score_def js_or_def)

text \<open>
  A row with a low score is counted as skipped, and nothing else happens: no crop, no
  file.
\<close>

lemma low_score_row_skipped:
  "low_score b bbox \<Longrightarrow>
   crop_row b env filename width height bbox index s = s\<lparr>cs_skipped := Suc (cs_skipped s)\<rparr>"
  by (simp add: crop_row_def)

text \<open>The example of the specification: one valid row with the score \<open>0.3\<close>.\<close>

lemma low_score_example:
  "report (cropAndSaveImagesStreaming example_host
      \<lparr>cr_to_blob = (\<lambda>r. True), cr_save = (\<lambda>d f. True), cr_progress = (\<lambda>c t m. True)\<rparr>
      (parseCSV example_host ''image,score,xmin,ymin,xmax,ymax\<newline>a.jpg,0.3,0,0,10,10'')
      [\<lparr>if_name = ''a.jpg'', if_size = Some (100, 100)\<rparr>]) = Some (0, 0, 1)"
  by code_simp

text \<open>
  C6 at the input on which the code departs from it: a valid row whose score is \<open>0\<close>.
  The score is present and below \<open>0.5\<close>, but \<open>bbox.score || 1.0\<close> replaces it by
  \<open>1.0\<close>, and the row is cropped and saved instead of skipped.
\<close>

theorem zero_score_is_cropped:
  "report (cropAndSaveImagesStreaming example_host
      \<lparr>cr_to_blob = (\<lambda>r. True), cr_save = (\<lambda>d f. True), cr_progress = (\<lambda>c t m. True)\<rparr>
      (parseCSV example_host ''image,score,xmin,ymin,xmax,ymax\<newline>a.jpg,0,0,0,10,10'')
      [\<lparr>if_name = ''a.jpg'', if_size = Some (100, 100)\<rparr>]) = Some (1, 0, 0)"
  by code_simp

subsection \<open>Cropping: grouping and the report\<close>

lemma add_row_named:
  "truthy (row_filename row) \<Longrightarrow> add_row b G row = group_add G (to_string b (row_filename row)) row"
  by (simp add: add_row_def)

lemma add_row_unnamed: "\<not> truthy (row_filename row) \<Longrightarrow> add_row b G row = G"
  by (simp add: add_row_def)




lemma group_add_keys:
  "map fst (group_add G k row) = (if k \<in> fst ` set G then map fst G else map fst G @ [k])"
  by (induction G) force+
















text \<open>
  The grouping throws as soon as a row has a file name that \<open>Object.prototype\<close>
  defines, and is the plain grouping otherwise.
\<close>

lemma group_step_plain: "plain_name b row \<Longrightarrow> group_step b G row = Inr (add_row b G row)"
  by (cases "truthy (row_filename row)")
     (simp_all add: group_step_def add_row_def plain_name_def obj_get_def split: option.split)

lemma group_step_throws:
  "\<not> plain_name b row \<Longrightarrow> fst ` set G \<inter> set object_prototype_names = {} \<Longrightarrow>
   group_step b G row = Inl TypeError"
proof -
  assume np: "\<not> plain_name b row" and G: "fst ` set G \<inter> set object_prototype_names = {}"
  from np have t: "truthy (row_filename row)"
    and k: "to_string b (row_filename row) \<in> set object_prototype_names"
    by (simp_all add: plain_name_def split: if_splits)
  from k G have "to_string b (row_filename row) \<notin> fst ` set G" by blast
  then have "map_of G (to_string b (row_filename row)) = None" by (simp add: map_of_eq_None_iff)
  then show ?thesis using t k by (simp add: group_step_def obj_get_def)
qed

lemma disjoint_insert_sub: "A \<subseteq> insert k B \<Longrightarrow> B \<inter> P = {} \<Longrightarrow> k \<notin> P \<Longrightarrow> A \<inter> P = {}"
  by blast

lemma group_add_key_set: "fst ` set (group_add G k row) \<subseteq> insert k (fst ` set G)"
proof -
  have "set (map fst (group_add G k row)) \<subseteq> insert k (set (map fst G))"
    by (simp only: group_add_keys split: if_split) (simp add: subset_insertI)
  then show ?thesis by (simp only: set_map)
qed

lemma add_row_keys:
  "plain_name b row \<Longrightarrow> fst ` set G \<inter> set object_prototype_names = {} \<Longrightarrow>
   fst ` set (add_row b G row) \<inter> set object_prototype_names = {}"
proof -
  assume pn: "plain_name b row" and G: "fst ` set G \<inter> set object_prototype_names = {}"
  show ?thesis
  proof (cases "truthy (row_filename row)")
    case True
    then have k: "to_string b (row_filename row) \<notin> set object_prototype_names"
      using pn by (simp add: plain_name_def)
    show ?thesis
      unfolding add_row_named[OF True]
      by (rule disjoint_insert_sub[OF group_add_key_set G k])
  next
    case False
    show ?thesis unfolding add_row_unnamed[OF False] by (rule G)
  qed
qed

lemma group_loop_plain:
  "fst ` set G \<inter> set object_prototype_names = {} \<Longrightarrow>
   group_loop b G rows
   = (if list_all (plain_name b) rows then Inr (foldl (add_row b) G rows) else Inl TypeError)"
proof (induction rows arbitrary: G)
  case Nil
  then show ?case by simp
next
  case (Cons row rows)
  show ?case
  proof (cases "plain_name b row")
    case True
    from Cons.IH[OF add_row_keys[OF True Cons.prems]] True
    show ?thesis by (simp add: group_step_plain)
  next
    case False
    then show ?thesis by (simp add: group_step_throws[OF False Cons.prems])
  qed
qed

lemma group_rows_plain:
  "group_rows b csvData
   = (if list_all (plain_name b) csvData then Inr (foldl (add_row b) [] csvData) else Inl TypeError)"
  by (simp add: group_rows_def group_loop_plain)





lemma prototype_name_throws:
  "\<not> list_all (plain_name b) csvData \<Longrightarrow>
   cropAndSaveImagesStreaming b env csvData imageFiles = Threw TypeError"
  by (simp add: cropAndSaveImagesStreaming_def group_rows_plain)

text \<open>
  A row whose image is called \<open>constructor\<close>: the grouping throws, and there is no
  report.
\<close>

lemma prototype_name_example:
  "cropAndSaveImagesStreaming example_host
      \<lparr>cr_to_blob = (\<lambda>r. True), cr_save = (\<lambda>d f. True), cr_progress = (\<lambda>c t m. True)\<rparr>
      (parseCSV example_host ''image,xmin,ymin,xmax,ymax\<newline>constructor,0,0,10,10'')
      [\<lparr>if_name = ''constructor'', if_size = Some (100, 100)\<rparr>] = Threw TypeError"
  by code_simp




subsection \<open>The round trip through the CSV writer\<close>

























































text \<open>
  Outside the conditions of \<open>regular_csv\<close> the round trip can fail. A header with a
  comma inside quotes: \<open>parseCSV\<close> reads three names in \<open>"a,b",c\<close> and two values in
  \<open>x,y\<close>, so the field \<open>c\<close> is \<open>undefined\<close>; it is written as an empty cell and
  comes back as the empty string.
\<close>

lemma quoted_header_example:
  "csv_headers ''\"a,b\",c\<newline>x,y'' = [''\"a'', ''b\"'', ''c'']
   \<and> \<not> regular_csv ''\"a,b\",c\<newline>x,y''
   \<and> parseCSV example_host ''\"a,b\",c\<newline>x,y''
     = [[(''\"a'', JStr ''x''), (''b\"'', JStr ''y''), (''c'', JUndef)]]
   \<and> serialize_rows example_host (parseCSV example_host ''\"a,b\",c\<newline>x,y'')
     = ''\"a,b\",c\<newline>x,y,\<newline>''
   \<and> parseCSV example_host (serialize_rows example_host (parseCSV example_host ''\"a,b\",c\<newline>x,y''))
     = [[(''\"a'', JStr ''x''), (''b\"'', JStr ''y''), (''c'', JStr [])]]
   \<and> \<not> list_all2 same_fields
        (parseCSV example_host (serialize_rows example_host (parseCSV example_host ''\"a,b\",c\<newline>x,y'')))
        (parseCSV example_host ''\"a,b\",c\<newline>x,y'')"
  by code_simp

text \<open>
  A column named \<open>__proto__\<close>: the assignment creates no field, the record is empty,
  the writer writes two empty lines for it, and parsing them gives no record.
\<close>

lemma proto_header_example:
  "parseCSV example_host ''__proto__\<newline>x'' = [[]]
   \<and> \<not> regular_csv ''__proto__\<newline>x''
   \<and> serialize_rows example_host (parseCSV example_host ''__proto__\<newline>x'') = ''\<newline>\<newline>''
   \<and> parseCSV example_host (serialize_rows example_host (parseCSV example_host ''__proto__\<newline>x''))
     = []"
  by code_simp




end
